theory Spec2Isabelle
  imports Main "HOL-Library.Sublist"
begin

section \<open>Platform values used by the routes\<close>

subsection \<open>URLSearchParams\<close>

text \<open>
  A \<^verbatim>\<open>URLSearchParams\<close> object is an ordered list of name/value entries in which a
  name may occur several times. The operations below are the ones the components call,
  with the meaning the URL standard gives them: \<^verbatim>\<open>getAll\<close> returns the values of a name
  in order, \<^verbatim>\<open>get\<close> the first of them, \<^verbatim>\<open>delete\<close> removes every entry of a name,
  \<^verbatim>\<open>append\<close> adds an entry at the end, and \<^verbatim>\<open>set\<close> overwrites the first entry of the
  name, removes its other entries, and appends when the name is absent. The source
  mutates the object in place; the model returns the new list.
\<close>

type_synonym URLSearchParams = "(string \<times> string) list"

definition usp_getAll :: "string \<Rightarrow> URLSearchParams \<Rightarrow> string list" where
  "usp_getAll name ps = map snd (filter (\<lambda>e. fst e = name) ps)"



definition usp_delete :: "string \<Rightarrow> URLSearchParams \<Rightarrow> URLSearchParams" where
  "usp_delete name ps = filter (\<lambda>e. fst e \<noteq> name) ps"

definition usp_append :: "string \<Rightarrow> string \<Rightarrow> URLSearchParams \<Rightarrow> URLSearchParams" where
  "usp_append name v ps = ps @ [(name, v)]"

fun usp_set :: "string \<Rightarrow> string \<Rightarrow> URLSearchParams \<Rightarrow> URLSearchParams" where
  "usp_set name v [] = [(name, v)]"
| "usp_set name v (e # ps) =
     (if fst e = name then (name, v) # usp_delete name ps else e # usp_set name v ps)"

text \<open>
  \<^verbatim>\<open>String.prototype.includes\<close>: the second string occurs in the first as a contiguous
  run of characters. The empty string occurs in every string.
\<close>

fun str_includes :: "string \<Rightarrow> string \<Rightarrow> bool" where
  "str_includes [] needle = (needle = [])"
| "str_includes (c # cs) needle = (prefix needle (c # cs) \<or> str_includes cs needle)"

text \<open>
  A link target \<^verbatim>\<open>`${location.pathname}?${params.toString()}`\<close> is kept as its two
  parts, the path and the entries of its query string: the serialisation of the entries
  and its inverse belong to the platform.
\<close>

record Location =
  pathname :: string

record Link =
  link_pathname :: string
  link_search :: URLSearchParams

section \<open>Sorting and filtering of a collection\<close>

subsection \<open>getSortValuesFromParam (collection route)\<close>

datatype ProductCollectionSortKeys =
  BEST_SELLING | COLLECTION_DEFAULT | CREATED | ID | MANUAL | PRICE | RELEVANCE | TITLE

record SortValues =
  sortKey :: ProductCollectionSortKeys
  reverse :: bool

text \<open>
  The argument is \<^verbatim>\<open>searchParams.get('sort')\<close>: any string, or \<^verbatim>\<open>null\<close> (here
  \<open>None\<close>) when the URL has no such parameter.
\<close>

definition getSortValuesFromParam :: "string option \<Rightarrow> SortValues" where
  "getSortValuesFromParam sortParam =
     (if sortParam = Some ''price-high-low'' then \<lparr>sortKey = PRICE, reverse = True\<rparr>
      else if sortParam = Some ''price-low-high'' then \<lparr>sortKey = PRICE, reverse = False\<rparr>
      else if sortParam = Some ''best-selling'' then \<lparr>sortKey = BEST_SELLING, reverse = False\<rparr>
      else if sortParam = Some ''newest'' then \<lparr>sortKey = CREATED, reverse = True\<rparr>
      else if sortParam = Some ''featured'' then \<lparr>sortKey = MANUAL, reverse = False\<rparr>
      else \<lparr>sortKey = RELEVANCE, reverse = False\<rparr>)"

subsection \<open>getAppliedFilterLink (SortFilter component)\<close>

record UrlParam =
  urlParam_key :: string
  urlParam_value :: string

text \<open>
  The label of an applied filter is a string; the collection loader leaves it
  \<^verbatim>\<open>undefined\<close> (here \<open>None\<close>) for a variant option whose value has no colon.
\<close>

record AppliedFilter =
  label :: "string option"
  urlParam :: UrlParam

definition getAppliedFilterLink :: "AppliedFilter \<Rightarrow> URLSearchParams \<Rightarrow> Location \<Rightarrow> Link" where
  "getAppliedFilterLink filter' params location =
     (let paramsClone = params;
          paramsClone' =
            (if urlParam_key (urlParam filter') = ''variantOption'' then
               (let variantOptions = usp_getAll ''variantOption'' paramsClone;
                    filteredVariantOptions =
                      List.filter (\<lambda>options. \<not> str_includes options (urlParam_value (urlParam filter')))
                        variantOptions
                in foldl (\<lambda>p filteredVariantOption.
                            usp_append (urlParam_key (urlParam filter')) filteredVariantOption p)
                     (usp_delete (urlParam_key (urlParam filter')) paramsClone)
                     filteredVariantOptions)
             else usp_delete (urlParam_key (urlParam filter')) paramsClone)
      in \<lparr>link_pathname = pathname location, link_search = paramsClone'\<rparr>)"

subsection \<open>filterInputToParams (SortFilter component)\<close>

text \<open>
  The filter input is the object \<^verbatim>\<open>JSON.parse\<close> returns (or the object passed as it
  is): its values are strings, booleans or objects. An object is a list of its own
  properties in insertion order; a property that is absent reads as \<^verbatim>\<open>undefined\<close>.
\<close>

datatype FilterType = LIST | PRICE_RANGE | BOOLEAN

datatype JsValue = JsString string | JsBoolean bool | JsObject "(string \<times> JsValue) list"

text \<open>Reading a property: \<open>None\<close> is \<^verbatim>\<open>undefined\<close>.\<close>

definition js_prop :: "JsValue \<Rightarrow> string \<Rightarrow> JsValue option" where
  "js_prop v name = (case v of JsObject props \<Rightarrow> map_of props name | _ \<Rightarrow> None)"

text \<open>Conversion to a string, as a template literal and \<^verbatim>\<open>params.set\<close> perform it.\<close>

definition js_toString :: "JsValue option \<Rightarrow> string" where
  "js_toString v =
     (case v of
        None \<Rightarrow> ''undefined''
      | Some (JsString s) \<Rightarrow> s
      | Some (JsBoolean b) \<Rightarrow> (if b then ''true'' else ''false'')
      | Some (JsObject props) \<Rightarrow> ''[object Object]'')"

definition js_truthy :: "JsValue option \<Rightarrow> bool" where
  "js_truthy v =
     (case v of
        None \<Rightarrow> False
      | Some (JsString s) \<Rightarrow> s \<noteq> []
      | Some (JsBoolean b) \<Rightarrow> b
      | Some (JsObject props) \<Rightarrow> True)"

datatype JsError = TypeError string | Error string | URIError string | DOMException string

text \<open>The body of the \<^verbatim>\<open>forEach\<close> callback of the \<^verbatim>\<open>LIST\<close> case, for one entry.\<close>

definition listEntryToParams :: "URLSearchParams \<Rightarrow> string \<times> JsValue \<Rightarrow> URLSearchParams" where
  "listEntryToParams params entry =
     (case snd entry of
        JsString s \<Rightarrow> usp_set (fst entry) s params
      | JsBoolean b \<Rightarrow> usp_set (fst entry) (js_toString (Some (JsBoolean b))) params
      | JsObject props \<Rightarrow>
          (let allVariants = usp_getAll ''variantOption'' params;
               newVariant =
                 js_toString (js_prop (JsObject props) ''name'') @ '':'' @
                 js_toString (js_prop (JsObject props) ''value'')
           in if newVariant \<in> set allVariants then params
              else usp_append ''variantOption'' newVariant params))"

text \<open>
  \<^verbatim>\<open>input.price.min\<close> raises a \<^verbatim>\<open>TypeError\<close> when \<^verbatim>\<open>input.price\<close> is
  \<^verbatim>\<open>undefined\<close>. A filter type other than the two cases leaves the parameters as
  they are.
\<close>

definition filterInputToParams ::
  "FilterType \<Rightarrow> (string \<times> JsValue) list \<Rightarrow> URLSearchParams \<Rightarrow> JsError + URLSearchParams" where
  "filterInputToParams type' input params =
     (case type' of
        PRICE_RANGE \<Rightarrow>
          (case map_of input ''price'' of
             None \<Rightarrow> Inl (TypeError ''Cannot read properties of undefined (reading 'min')'')
           | Some price \<Rightarrow>
               (let params1 =
                      (if js_truthy (js_prop price ''min'')
                       then usp_set ''minPrice'' (js_toString (js_prop price ''min'')) params
                       else params);
                    params2 =
                      (if js_truthy (js_prop price ''max'')
                       then usp_set ''maxPrice'' (js_toString (js_prop price ''max'')) params1
                       else params1)
                in Inr params2))
      | LIST \<Rightarrow> Inr (foldl listEntryToParams params input)
      | BOOLEAN \<Rightarrow> Inr params)"

text \<open>Helpers for statements about \<^verbatim>\<open>filterInputToParams\<close>.\<close>

definition is_JsObject :: "JsValue \<Rightarrow> bool" where
  "is_JsObject v = (case v of JsObject props \<Rightarrow> True | _ \<Rightarrow> False)"

definition variantOf :: "JsValue \<Rightarrow> string" where
  "variantOf v = js_toString (js_prop v ''name'') @ '':'' @ js_toString (js_prop v ''value'')"

section \<open>Requests, responses, session and storefront\<close>

subsection \<open>Form data and requests\<close>

text \<open>
  \<^verbatim>\<open>FormData\<close> is the ordered list of the entries of the submitted form; a value is a
  string or a file. Two file objects are equal only when they are the same object, so a
  file carries its position among the files of the request. \<^verbatim>\<open>has\<close> tells whether a
  name occurs, \<^verbatim>\<open>get\<close> returns the first value of a name or \<^verbatim>\<open>null\<close> (here \<open>None\<close>).
\<close>

datatype FormDataEntryValue = FormString string | FormFile nat

type_synonym FormData = "(string \<times> FormDataEntryValue) list"

definition form_has :: "FormData \<Rightarrow> string \<Rightarrow> bool" where
  "form_has form name = (map_of form name \<noteq> None)"

definition form_get :: "FormData \<Rightarrow> string \<Rightarrow> FormDataEntryValue option" where
  "form_get form name = map_of form name"

text \<open>\<^verbatim>\<open>String(v)\<close> and the truth value of \<^verbatim>\<open>v\<close>, for a form value or \<^verbatim>\<open>null\<close>.\<close>

definition form_String :: "FormDataEntryValue option \<Rightarrow> string" where
  "form_String v =
     (case v of None \<Rightarrow> ''null'' | Some (FormString s) \<Rightarrow> s | Some (FormFile n) \<Rightarrow> ''[object File]'')"

definition form_truthy :: "FormDataEntryValue option \<Rightarrow> bool" where
  "form_truthy v =
     (case v of None \<Rightarrow> False | Some (FormString s) \<Rightarrow> s \<noteq> [] | Some (FormFile n) \<Rightarrow> True)"

text \<open>
  A request is its method, the entries of its form body (what \<^verbatim>\<open>request.formData()\<close>
  resolves to), and the path and the entries of the query string of its URL.
\<close>

record Request =
  request_method :: string
  request_formData :: FormData
  request_pathname :: string
  request_searchParams :: URLSearchParams

subsection \<open>Responses\<close>

datatype 'd Body = NullBody | TextBody string | JsonBody 'd

record 'd Response =
  status :: nat
  headers :: "(string \<times> string) list"
  body :: "'d Body"

text \<open>
  The response helpers of the framework: \<^verbatim>\<open>json(data, init)\<close> answers with the data
  and the status and headers of \<^verbatim>\<open>init\<close> (status 200 when none is given) and marks the
  content as JSON; \<^verbatim>\<open>defer(data, init)\<close> (here \<open>defer_data\<close>) does the same for data that
  may hold promises, with the content type of a deferred response;
  \<^verbatim>\<open>redirect(url, init)\<close> answers without a body, with the \<^verbatim>\<open>Location\<close> header set to
  the URL (status 302 when none is given); \<^verbatim>\<open>new Response(text, init)\<close> is the plain
  response.
\<close>

definition json :: "'d \<Rightarrow> nat \<Rightarrow> (string \<times> string) list \<Rightarrow> 'd Response" where
  "json data st hdrs =
     \<lparr>status = st, headers = hdrs @ [(''Content-Type'', ''application/json; charset=utf-8'')],
      body = JsonBody data\<rparr>"


definition redirect :: "string \<Rightarrow> nat \<Rightarrow> (string \<times> string) list \<Rightarrow> 'd Response" where
  "redirect url st hdrs = \<lparr>status = st, headers = hdrs @ [(''Location'', url)], body = NullBody\<rparr>"



definition error_message :: "JsError \<Rightarrow> string" where
  "error_message e =
     (case e of TypeError m \<Rightarrow> m | Error m \<Rightarrow> m | URIError m \<Rightarrow> m | DOMException m \<Rightarrow> m)"

subsection \<open>Session\<close>

record CustomerAccessToken =
  accessToken :: string
  expiresAt :: string

text \<open>
  Modelled from the spec: the session class \<^verbatim>\<open>HydrogenSession\<close> of \<^verbatim>\<open>server.ts\<close>, which
  is not among the sources. The spec says that the session state (the customer login
  token) is stored in a signed cookie managed by the framework. The session is the store
  of its keyed values: \<^verbatim>\<open>get\<close> reads a key, \<^verbatim>\<open>set\<close> writes it, \<^verbatim>\<open>unset\<close> removes it.
  \<^verbatim>\<open>commit\<close> serialises the store into the value of the \<^verbatim>\<open>Set-Cookie\<close> header; it is a
  parameter \<open>commit\<close> of every function that calls it.
\<close>

type_synonym Session = "string \<rightharpoonup> CustomerAccessToken"

definition session_get :: "Session \<Rightarrow> string \<Rightarrow> CustomerAccessToken option" where
  "session_get session name = session name"

definition session_set :: "Session \<Rightarrow> string \<Rightarrow> CustomerAccessToken \<Rightarrow> Session" where
  "session_set session name v = session(name \<mapsto> v)"

definition session_unset :: "Session \<Rightarrow> string \<Rightarrow> Session" where
  "session_unset session name = session(name := None)"

subsection \<open>Storefront mutations of the customer\<close>

text \<open>
  The storefront API is a parameter: a function from the variables of a mutation to its
  payload (\<open>None\<close> is \<^verbatim>\<open>null\<close>). An action returns, with its response, the session as it
  leaves it and the list of the mutations it has sent, in order. Of a user error only the
  message is read.
\<close>

record CustomerUserError =
  message :: string

record UserErrorsPayload =
  customerUserErrors :: "CustomerUserError list"

record TokenPayload = UserErrorsPayload +
  customerAccessToken :: "CustomerAccessToken option"

record ('d, 'm) ActionResult =
  response :: "'d Response"
  session_after :: Session
  mutations :: "'m list"

text \<open>
  \<^verbatim>\<open>errors[0].message\<close>: reading \<^verbatim>\<open>message\<close> of the first element of an empty list is a
  \<^verbatim>\<open>TypeError\<close>.
\<close>

definition first_error_message :: "CustomerUserError list \<Rightarrow> JsError + string" where
  "first_error_message errors =
     (case errors of
        [] \<Rightarrow> Inl (TypeError ''Cannot read properties of undefined (reading 'message')'')
      | e # _ \<Rightarrow> Inr (message e))"

text \<open>\<^verbatim>\<open>throw new Error(errors[0].message)\<close>\<close>

definition throw_first_error :: "CustomerUserError list \<Rightarrow> JsError" where
  "throw_first_error errors =
     (case first_error_message errors of Inl e \<Rightarrow> e | Inr m \<Rightarrow> Error m)"

text \<open>
  The \<^verbatim>\<open>catch\<close> clause shared by the actions of the login and reset routes: every value
  thrown in these actions is an \<^verbatim>\<open>Error\<close>, answered with its message and status 400.
\<close>

datatype ActionData = ErrorData string

definition catch_400 :: "JsError \<Rightarrow> ActionData Response" where
  "catch_400 e = json (ErrorData (error_message e)) 400 []"

subsection \<open>The login route: action\<close>

record LoginInput =
  login_email :: string
  login_password :: string

definition login_action ::
  "(Session \<Rightarrow> string) \<Rightarrow> (LoginInput \<Rightarrow> TokenPayload option) \<Rightarrow>
   Request \<Rightarrow> Session \<Rightarrow> (ActionData, LoginInput) ActionResult" where
  "login_action commit mutate request session =
     (if request_method request \<noteq> ''POST'' then
        \<lparr>response = json (ErrorData ''Method not allowed'') 405 [], session_after = session,
         mutations = []\<rparr>
      else
        (let form = request_formData request;
             email = form_String (if form_has form ''email'' then form_get form ''email''
                                  else Some (FormString []));
             password = form_String (if form_has form ''password'' then form_get form ''password''
                                     else Some (FormString []));
             validInputs = (email \<noteq> [] \<and> password \<noteq> [])
         in if \<not> validInputs then
              \<lparr>response = catch_400 (Error ''Please provide both an email and a password.''),
               session_after = session, mutations = []\<rparr>
            else
              (let input = \<lparr>login_email = email, login_password = password\<rparr>;
                   customerAccessTokenCreate = mutate input
               in case customerAccessTokenCreate of
                    None \<Rightarrow>
                      \<lparr>response = catch_400 (Error []), session_after = session,
                       mutations = [input]\<rparr>
                  | Some payload \<Rightarrow>
                      (case customerAccessToken payload of
                         None \<Rightarrow>
                           \<lparr>response = catch_400 (throw_first_error (customerUserErrors payload)),
                            session_after = session, mutations = [input]\<rparr>
                       | Some token \<Rightarrow>
                           if accessToken token = [] then
                             \<lparr>response = catch_400 (throw_first_error (customerUserErrors payload)),
                              session_after = session, mutations = [input]\<rparr>
                           else
                             (let session' = session_set session ''customerAccessToken'' token
                              in \<lparr>response =
                                     redirect ''/account'' 302 [(''Set-Cookie'', commit session')],
                                   session_after = session', mutations = [input]\<rparr>)))))"

subsection \<open>The password reset route: action\<close>

record ResetVariables =
  reset_id :: string
  reset_password :: string
  reset_resetToken :: string

text \<open>
  The route parameters \<^verbatim>\<open>id\<close> and \<^verbatim>\<open>resetToken\<close> are strings or \<^verbatim>\<open>undefined\<close>
  (here \<open>None\<close>); \<^verbatim>\<open>!id\<close> holds of \<^verbatim>\<open>undefined\<close> and of the empty string. The part of
  the \<^verbatim>\<open>try\<close> block after the check of the two parameters is \<open>reset_submit\<close>.
\<close>

definition reset_submit ::
  "(Session \<Rightarrow> string) \<Rightarrow> (ResetVariables \<Rightarrow> TokenPayload option) \<Rightarrow>
   Request \<Rightarrow> string \<Rightarrow> string \<Rightarrow> Session \<Rightarrow> (ActionData, ResetVariables) ActionResult" where
  "reset_submit commit mutate request customerId resetToken session =
     (let form = request_formData request;
          password = (if form_has form ''password''
                      then form_String (form_get form ''password'') else []);
          passwordConfirm = (if form_has form ''passwordConfirm''
                             then form_String (form_get form ''passwordConfirm'') else []);
          validInputs = (password \<noteq> [] \<and> passwordConfirm \<noteq> [])
      in if validInputs \<and> password \<noteq> passwordConfirm then
           \<lparr>response = catch_400 (Error ''Please provide matching passwords''),
            session_after = session, mutations = []\<rparr>
         else
           (let variables =
                  \<lparr>reset_id = ''gid://shopify/Customer/'' @ customerId,
                   reset_password = password, reset_resetToken = resetToken\<rparr>;
                customerReset = mutate variables
            in case customerReset of
                 None \<Rightarrow>
                   \<lparr>response = catch_400 (Error ''Access token not found. Please try again.''),
                    session_after = session, mutations = [variables]\<rparr>
               | Some payload \<Rightarrow>
                   if customerUserErrors payload \<noteq> [] then
                     \<lparr>response = catch_400 (throw_first_error (customerUserErrors payload)),
                      session_after = session, mutations = [variables]\<rparr>
                   else
                     (case customerAccessToken payload of
                        None \<Rightarrow>
                          \<lparr>response =
                             catch_400 (Error ''Access token not found. Please try again.''),
                           session_after = session, mutations = [variables]\<rparr>
                      | Some token \<Rightarrow>
                          (let session' = session_set session ''customerAccessToken'' token
                           in \<lparr>response =
                                  redirect ''/account'' 302 [(''Set-Cookie'', commit session')],
                                session_after = session', mutations = [variables]\<rparr>))))"

definition reset_action ::
  "(Session \<Rightarrow> string) \<Rightarrow> (ResetVariables \<Rightarrow> TokenPayload option) \<Rightarrow>
   Request \<Rightarrow> string option \<Rightarrow> string option \<Rightarrow> Session \<Rightarrow>
   (ActionData, ResetVariables) ActionResult" where
  "reset_action commit mutate request id' resetToken session =
     (if request_method request \<noteq> ''POST'' then
        \<lparr>response = json (ErrorData ''Method not allowed'') 405 [], session_after = session,
         mutations = []\<rparr>
      else
        (case (id', resetToken) of
           (Some customerId, Some resetToken') \<Rightarrow>
             if customerId = [] \<or> resetToken' = [] then
               \<lparr>response = catch_400 (Error ''customer token or id not found''),
                session_after = session, mutations = []\<rparr>
             else reset_submit commit mutate request customerId resetToken' session
         | _ \<Rightarrow>
             \<lparr>response = catch_400 (Error ''customer token or id not found''),
              session_after = session, mutations = []\<rparr>))"

text \<open>A helper for statements about the login action: how it reads a field of the form.\<close>

definition login_field :: "FormData \<Rightarrow> string \<Rightarrow> string" where
  "login_field form name =
     form_String (if form_has form name then form_get form name else Some (FormString []))"

subsection \<open>The addresses route: action\<close>

text \<open>
  The mutations of the addresses route, each with its variables in the order of the
  source, and their payload: the user errors and, where the mutation selects it, the
  address with its id.
\<close>

type_synonym MailingAddressInput = "(string \<times> string) list"

datatype AddressMutation =
    CREATE_ADDRESS_MUTATION string MailingAddressInput
  | UPDATE_DEFAULT_ADDRESS_MUTATION string string
  | UPDATE_ADDRESS_MUTATION MailingAddressInput string string
  | DELETE_ADDRESS_MUTATION string string

record AddressFragment =
  address_id :: string

record AddressPayload = UserErrorsPayload +
  customerAddress :: "AddressFragment option"

datatype AddressActionData =
    AddressError string string
  | AddressErrorMessage string
  | CreatedAddress AddressFragment "bool option"
  | UpdatedAddress "AddressFragment option" "bool option"
  | DeletedAddress string

text \<open>
  \<open>AddressError addressId m\<close> is the body \<^verbatim>\<open>{error: {[addressId]: m}}\<close> and
  \<open>AddressErrorMessage m\<close> the body \<^verbatim>\<open>{error: m}\<close>; the other three are the bodies
  of the successful creation, update and deletion, with \<^verbatim>\<open>error: null\<close>.
\<close>

definition address_keys :: "string list" where
  "address_keys = [''address1'', ''address2'', ''city'', ''company'', ''country'', ''firstName'',
                   ''lastName'', ''phone'', ''province'', ''zip'']"

definition form_address :: "FormData \<Rightarrow> MailingAddressInput" where
  "form_address form =
     concat (map (\<lambda>key. case form_get form key of
                           Some (FormString s) \<Rightarrow> [(key, s)]
                         | _ \<Rightarrow> [])
               address_keys)"

text \<open>\<^verbatim>\<open>payload?.customerUserErrors?.length\<close> is truthy\<close>

definition has_user_errors :: "('a UserErrorsPayload_scheme) option \<Rightarrow> bool" where
  "has_user_errors payload =
     (case payload of None \<Rightarrow> False | Some p \<Rightarrow> customerUserErrors p \<noteq> [])"

definition user_errors :: "('a UserErrorsPayload_scheme) option \<Rightarrow> CustomerUserError list" where
  "user_errors payload = (case payload of None \<Rightarrow> [] | Some p \<Rightarrow> customerUserErrors p)"

text \<open>The inner \<^verbatim>\<open>catch\<close> clauses of the three cases: status 400, the message under the address id.\<close>

definition address_catch :: "string \<Rightarrow> JsError \<Rightarrow> AddressActionData Response" where
  "address_catch addressId e = json (AddressError addressId (error_message e)) 400 []"

text \<open>
  \<^verbatim>\<open>decodeURIComponent\<close> is a parameter: it returns the decoded string or raises a
  \<^verbatim>\<open>URIError\<close> (\<open>Inl\<close>), which is an \<^verbatim>\<open>Error\<close> for the \<^verbatim>\<open>catch\<close> clauses. The three cases of the \<^verbatim>\<open>switch\<close> on the method follow; the
  session is not written by this action.
\<close>

definition address_POST ::
  "(string \<Rightarrow> JsError + string) \<Rightarrow> (AddressMutation \<Rightarrow> AddressPayload option) \<Rightarrow>
   string \<Rightarrow> string \<Rightarrow> bool option \<Rightarrow> MailingAddressInput \<Rightarrow>
   AddressActionData Response \<times> AddressMutation list" where
  "address_POST decodeURIComponent mutate addressId accessToken' defaultAddress address =
     (let create = CREATE_ADDRESS_MUTATION accessToken' address;
          customerAddressCreate = mutate create
      in if has_user_errors customerAddressCreate then
           (address_catch addressId (throw_first_error (user_errors customerAddressCreate)), [create])
         else
           (case (case customerAddressCreate of None \<Rightarrow> None | Some p \<Rightarrow> customerAddress p) of
              None \<Rightarrow>
                (address_catch addressId
                   (Error ''Expected customer address to be created, but the id is missing''),
                 [create])
            | Some createdAddress \<Rightarrow>
                if address_id createdAddress = [] then
                  (address_catch addressId
                     (Error ''Expected customer address to be created, but the id is missing''),
                   [create])
                else if defaultAddress = Some True then
                  (case decodeURIComponent (address_id createdAddress) of
                     Inl e \<Rightarrow> (address_catch addressId e, [create])
                   | Inr createdAddressId \<Rightarrow>
                       (let update = UPDATE_DEFAULT_ADDRESS_MUTATION accessToken' createdAddressId;
                            customerDefaultAddressUpdate = mutate update
                        in if has_user_errors customerDefaultAddressUpdate then
                             (address_catch addressId
                                (throw_first_error (user_errors customerDefaultAddressUpdate)),
                              [create, update])
                           else
                             (json (CreatedAddress createdAddress defaultAddress) 200 [],
                              [create, update])))
                else (json (CreatedAddress createdAddress defaultAddress) 200 [], [create])))"

definition address_PUT ::
  "(string \<Rightarrow> JsError + string) \<Rightarrow> (AddressMutation \<Rightarrow> AddressPayload option) \<Rightarrow>
   string \<Rightarrow> string \<Rightarrow> bool option \<Rightarrow> MailingAddressInput \<Rightarrow>
   AddressActionData Response \<times> AddressMutation list" where
  "address_PUT decodeURIComponent mutate addressId accessToken' defaultAddress address =
     (case decodeURIComponent addressId of
        Inl e \<Rightarrow> (address_catch addressId e, [])
      | Inr decodedId \<Rightarrow>
          (let update = UPDATE_ADDRESS_MUTATION address accessToken' decodedId;
               customerAddressUpdate = mutate update;
               updatedAddress =
                 (case customerAddressUpdate of None \<Rightarrow> None | Some p \<Rightarrow> customerAddress p)
           in if has_user_errors customerAddressUpdate then
                (address_catch addressId (throw_first_error (user_errors customerAddressUpdate)),
                 [update])
              else if defaultAddress = Some True then
                (let updateDefault = UPDATE_DEFAULT_ADDRESS_MUTATION accessToken' decodedId;
                     customerDefaultAddressUpdate = mutate updateDefault
                 in if has_user_errors customerDefaultAddressUpdate then
                      (address_catch addressId
                         (throw_first_error (user_errors customerDefaultAddressUpdate)),
                       [update, updateDefault])
                    else
                      (json (UpdatedAddress updatedAddress defaultAddress) 200 [],
                       [update, updateDefault]))
              else (json (UpdatedAddress updatedAddress defaultAddress) 200 [], [update])))"

definition address_DELETE ::
  "(AddressMutation \<Rightarrow> AddressPayload option) \<Rightarrow> string \<Rightarrow> string \<Rightarrow>
   AddressActionData Response \<times> AddressMutation list" where
  "address_DELETE mutate addressId accessToken' =
     (let delete = DELETE_ADDRESS_MUTATION accessToken' addressId;
          customerAddressDelete = mutate delete
      in if has_user_errors customerAddressDelete then
           (address_catch addressId (throw_first_error (user_errors customerAddressDelete)),
            [delete])
         else (json (DeletedAddress addressId) 200 [], [delete]))"

definition addresses_action ::
  "(string \<Rightarrow> JsError + string) \<Rightarrow> (AddressMutation \<Rightarrow> AddressPayload option) \<Rightarrow>
   Request \<Rightarrow> Session \<Rightarrow> (AddressActionData, AddressMutation) ActionResult" where
  "addresses_action decodeURIComponent mutate request session =
     (let form = request_formData request;
          addressId = (if form_has form ''addressId''
                       then Some (form_String (form_get form ''addressId'')) else None)
      in case addressId of
           None \<Rightarrow>
             \<lparr>response = json (AddressErrorMessage ''You must provide an address id.'') 400 [],
              session_after = session, mutations = []\<rparr>
         | Some addressId' \<Rightarrow>
             if addressId' = [] then
               \<lparr>response = json (AddressErrorMessage ''You must provide an address id.'') 400 [],
                session_after = session, mutations = []\<rparr>
             else
               (case session_get session ''customerAccessToken'' of
                  None \<Rightarrow>
                    \<lparr>response = json (AddressError addressId' ''Unauthorized'') 401 [],
                     session_after = session, mutations = []\<rparr>
                | Some customerAccessToken' \<Rightarrow>
                    (let accessToken' = accessToken customerAccessToken';
                         defaultAddress =
                           (if form_has form ''defaultAddress''
                            then Some (form_String (form_get form ''defaultAddress'') = ''on'')
                            else None);
                         address = form_address form;
                         answer =
                           (if request_method request = ''POST'' then
                              address_POST decodeURIComponent mutate addressId' accessToken'
                                defaultAddress address
                            else if request_method request = ''PUT'' then
                              address_PUT decodeURIComponent mutate addressId' accessToken'
                                defaultAddress address
                            else if request_method request = ''DELETE'' then
                              address_DELETE mutate addressId' accessToken'
                            else
                              (json (AddressError addressId' ''Method not allowed'') 405 [], []))
                     in \<lparr>response = fst answer, session_after = session,
                         mutations = snd answer\<rparr>)))"

subsection \<open>The profile route: action\<close>

text \<open>
  \<^verbatim>\<open>getPassword\<close> reads three fields of the form; of the three checks the last one that
  applies decides the error thrown. Its result is \<^verbatim>\<open>String(password)\<close>, the string
  \<^verbatim>\<open>null\<close> when the form has no current password.
\<close>

definition getPassword :: "FormData \<Rightarrow> JsError + string" where
  "getPassword form =
     (let currentPassword = form_get form ''currentPassword'';
          newPassword = form_get form ''newPassword'';
          newPasswordConfirm = form_get form ''newPasswordConfirm''
      in if form_truthy newPassword \<and> form_truthy currentPassword \<and> newPassword = currentPassword
         then Inl (Error ''New password must be different than current password.'')
         else if form_truthy newPassword \<and> newPassword \<noteq> newPasswordConfirm
         then Inl (Error ''New passwords must match.'')
         else if form_truthy newPassword \<and> \<not> form_truthy currentPassword
         then Inl (Error ''Current password is required.'')
         else if form_truthy currentPassword \<and> form_truthy newPassword
         then Inr (form_String newPassword)
         else Inr (form_String currentPassword))"

type_synonym CustomerUpdateInput = "string \<rightharpoonup> string"

record CustomerUpdateVariables =
  update_customerAccessToken :: string
  update_customer :: CustomerUpdateInput

record 'c CustomerUpdatePayload = TokenPayload +
  customer :: "'c option"

datatype 'c ProfileActionData =
    ProfileError string
  | ProfileUserError CustomerUserError
  | ProfileCustomer "'c option"
  | ProfileErrorNoCustomer string

text \<open>
  \<open>ProfileError m\<close> is the body \<^verbatim>\<open>{error: m}\<close>, \<open>ProfileUserError e\<close> the body
  \<^verbatim>\<open>{error: e}\<close> with the first user error of the mutation, \<open>ProfileCustomer c\<close> the
  body \<^verbatim>\<open>{error: null, customer: c}\<close> and \<open>ProfileErrorNoCustomer m\<close> the body
  \<^verbatim>\<open>{error: m, customer: null}\<close>.
\<close>

definition validInputKeys :: "string list" where
  "validInputKeys = [''firstName'', ''lastName'', ''email'', ''password'', ''phone'']"

text \<open>
  The body of the loop over \<^verbatim>\<open>form.entries()\<close>. The test for \<^verbatim>\<open>acceptsMarketing\<close>
  stands after the \<^verbatim>\<open>continue\<close> for keys outside \<^verbatim>\<open>validInputKeys\<close>, which do not
  hold that key, so it never applies.
\<close>

definition profile_entry :: "CustomerUpdateInput \<Rightarrow> string \<times> FormDataEntryValue \<Rightarrow> CustomerUpdateInput" where
  "profile_entry customer' entry =
     (if fst entry \<notin> set validInputKeys then customer'
      else (case snd entry of
              FormString s \<Rightarrow> (if s \<noteq> [] then customer'(fst entry \<mapsto> s) else customer')
            | FormFile n \<Rightarrow> customer'))"

text \<open>
  The action awaits \<^verbatim>\<open>request.formData()\<close> before it reads the session and outside its
  \<^verbatim>\<open>try\<close> block, so a rejection of that promise is the action's own. Its request is
  therefore kept as the method and what the promise settles to: the entries of the form,
  or the \<^verbatim>\<open>TypeError\<close> raised for a body that is not form data. The action returns its
  result, or throws (\<open>Inl\<close>).
\<close>

record ProfileRequest =
  profile_method :: string
  profile_formData :: "JsError + FormData"

definition profile_action ::
  "(Session \<Rightarrow> string) \<Rightarrow> (CustomerUpdateVariables \<Rightarrow> 'c CustomerUpdatePayload option) \<Rightarrow>
   ProfileRequest \<Rightarrow> Session \<Rightarrow>
   JsError + ('c ProfileActionData, CustomerUpdateVariables) ActionResult" where
  "profile_action commit mutate request session =
     (if profile_method request \<noteq> ''PUT'' then
        Inr \<lparr>response = json (ProfileError ''Method not allowed'') 405 [], session_after = session,
             mutations = []\<rparr>
      else
        (case profile_formData request of
           Inl e \<Rightarrow> Inl e
         | Inr form \<Rightarrow>
             (case session_get session ''customerAccessToken'' of
                   None \<Rightarrow>
                     Inr \<lparr>response = json (ProfileError ''Unauthorized'') 401 [], session_after = session,
                          mutations = []\<rparr>
                 | Some customerAccessToken' \<Rightarrow>
                     (case getPassword form of
                        Inl e \<Rightarrow>
                          Inr \<lparr>response = json (ProfileErrorNoCustomer (error_message e)) 400 [],
                               session_after = session, mutations = []\<rparr>
                      | Inr password \<Rightarrow>
                          (let customer0 = foldl profile_entry Map.empty form;
                               customer1 = (if password \<noteq> [] then customer0(''password'' \<mapsto> password)
                                            else customer0);
                               variables = \<lparr>update_customerAccessToken = accessToken customerAccessToken',
                                            update_customer = customer1\<rparr>;
                               customerUpdate = mutate variables
                           in case customerUpdate of
                                None \<Rightarrow>
                                  Inr \<lparr>response = json (ProfileCustomer None) 200
                                                    [(''Set-Cookie'', commit session)],
                                       session_after = session, mutations = [variables]\<rparr>
                              | Some payload \<Rightarrow>
                                  (case customerUserErrors payload of
                                     e # _ \<Rightarrow>
                                       Inr \<lparr>response = json (ProfileUserError e) 400 [],
                                            session_after = session, mutations = [variables]\<rparr>
                                   | [] \<Rightarrow>
                                       (let session' =
                                              (case customerAccessToken payload of
                                                 None \<Rightarrow> session
                                               | Some token \<Rightarrow>
                                                   if accessToken token \<noteq> []
                                                   then session_set session ''customerAccessToken'' token
                                                   else session)
                                        in Inr \<lparr>response = json (ProfileCustomer (customer payload)) 200
                                                              [(''Set-Cookie'', commit session')],
                                                session_after = session',
                                                mutations = [variables]\<rparr>)))))))"

section \<open>Loaders\<close>




subsection \<open>The collection route: loader\<close>










subsection \<open>The product route: loader\<close>








subsection \<open>The blog route: loader\<close>

record 'a Blog =
  blog_title :: string
  articles :: "'a option"



subsection \<open>The order route: loader\<close>

text \<open>
  The query asks for the node with the given id, which need not be an order: only an
  order has \<^verbatim>\<open>lineItems\<close>. The two connections of the order are kept as the lists
  \<^verbatim>\<open>flattenConnection\<close> returns. \<open>atob\<close> is a parameter: it returns the decoded id or
  raises a \<^verbatim>\<open>DOMException\<close>, which nothing in the loader catches.
\<close>

datatype ('m, 'p) DiscountValue = MoneyV2 'm | PricingPercentageValue 'p

record ('l, 'm, 'p) Order =
  order_name :: string
  lineItems :: "'l list"
  discountApplications :: "('m, 'p) DiscountValue list"





section \<open>The root route: validation of the customer access token\<close>

text \<open>
  \<open>getTime s\<close> is \<^verbatim>\<open>new Date(s).getTime()\<close>, the milliseconds since the epoch or
  \<^verbatim>\<open>NaN\<close> (here \<open>None\<close>) when the string is not a date; \<open>dateNow\<close> is \<^verbatim>\<open>Date.now()\<close>.
  A comparison with \<^verbatim>\<open>NaN\<close> is false. The function returns the login flag and the
  headers, and the session as it leaves it.
\<close>

record ValidationResult =
  isLoggedIn :: bool
  validation_headers :: "(string \<times> string) list"
  validation_session :: Session

definition js_less :: "int option \<Rightarrow> int \<Rightarrow> bool" where
  "js_less x y = (case x of None \<Rightarrow> False | Some t \<Rightarrow> t < y)"

definition validateCustomerAccessToken ::
  "(Session \<Rightarrow> string) \<Rightarrow> (string \<Rightarrow> int option) \<Rightarrow> int \<Rightarrow>
   Session \<Rightarrow> CustomerAccessToken option \<Rightarrow> ValidationResult" where
  "validateCustomerAccessToken commit getTime dateNow session customerAccessToken' =
     (case customerAccessToken' of
        None \<Rightarrow> \<lparr>isLoggedIn = False, validation_headers = [], validation_session = session\<rparr>
      | Some token \<Rightarrow>
          if accessToken token = [] \<or> expiresAt token = [] then
            \<lparr>isLoggedIn = False, validation_headers = [], validation_session = session\<rparr>
          else
            (let expiresAt' = getTime (expiresAt token);
                 customerAccessTokenExpired = js_less expiresAt' dateNow
             in if customerAccessTokenExpired then
                  (let session' = session_unset session ''customerAccessToken''
                   in \<lparr>isLoggedIn = False,
                       validation_headers = [(''Set-Cookie'', commit session')],
                       validation_session = session'\<rparr>)
                else
                  \<lparr>isLoggedIn = True, validation_headers = [], validation_session = session\<rparr>))"

section \<open>The root route: loader\<close>






section \<open>Properties of the sorting and filtering helpers\<close>

lemma str_includes_sublist: "str_includes s needle \<longleftrightarrow> sublist needle s"
  by (induction s) (simp_all add: sublist_Cons_right)

text \<open>
  C5. \<^verbatim>\<open>getSortValuesFromParam\<close> has a result for every argument: each of the five
  known values of the \<^verbatim>\<open>sort\<close> parameter has its own sort key and direction, and any
  other value, the absent parameter included, gives \<^verbatim>\<open>RELEVANCE\<close>, not reversed.
\<close>

theorem getSortValuesFromParam_table:
  "getSortValuesFromParam (Some ''price-high-low'') = \<lparr>sortKey = PRICE, reverse = True\<rparr> \<and>
   getSortValuesFromParam (Some ''price-low-high'') = \<lparr>sortKey = PRICE, reverse = False\<rparr> \<and>
   getSortValuesFromParam (Some ''best-selling'') = \<lparr>sortKey = BEST_SELLING, reverse = False\<rparr> \<and>
   getSortValuesFromParam (Some ''newest'') = \<lparr>sortKey = CREATED, reverse = True\<rparr> \<and>
   getSortValuesFromParam (Some ''featured'') = \<lparr>sortKey = MANUAL, reverse = False\<rparr> \<and>
   (\<forall>sortParam.
      sortParam \<notin> {Some ''price-high-low'', Some ''price-low-high'', Some ''best-selling'',
                    Some ''newest'', Some ''featured''} \<longrightarrow>
      getSortValuesFromParam sortParam = \<lparr>sortKey = RELEVANCE, reverse = False\<rparr>)"
  by (simp add: getSortValuesFromParam_def)

theorem getSortValuesFromParam_table_witness:
  "getSortValuesFromParam None = \<lparr>sortKey = RELEVANCE, reverse = False\<rparr> \<and>
   getSortValuesFromParam (Some ''title-a-z'') = \<lparr>sortKey = RELEVANCE, reverse = False\<rparr> \<and>
   getSortValuesFromParam (Some ''newest'') = \<lparr>sortKey = CREATED, reverse = True\<rparr>"
proof -
  note t = getSortValuesFromParam_table
  have other: "\<And>p. p \<notin> {Some ''price-high-low'', Some ''price-low-high'', Some ''best-selling'',
                    Some ''newest'', Some ''featured''} \<Longrightarrow>
      getSortValuesFromParam p = \<lparr>sortKey = RELEVANCE, reverse = False\<rparr>"
    using t by blast
  have "getSortValuesFromParam None = \<lparr>sortKey = RELEVANCE, reverse = False\<rparr>"
    by (rule other) simp
  moreover have "getSortValuesFromParam (Some ''title-a-z'') = \<lparr>sortKey = RELEVANCE, reverse = False\<rparr>"
    by (rule other) simp
  moreover have "getSortValuesFromParam (Some ''newest'') = \<lparr>sortKey = CREATED, reverse = True\<rparr>"
    using t by blast
  ultimately show ?thesis by blast
qed

subsection \<open>Removing an applied filter\<close>

lemma foldl_usp_append: "foldl (\<lambda>p v. usp_append k v p) ps vs = ps @ map (\<lambda>v. (k, v)) vs"
  by (induction vs arbitrary: ps) (simp_all add: usp_append_def)

lemma map_key_getAll_filter:
  "map (\<lambda>v. (k, v)) (filter P (usp_getAll k ps)) = filter (\<lambda>e. fst e = k \<and> P (snd e)) ps"
  by (induction ps) (auto simp: usp_getAll_def)

lemma link_search_variantOption:
  "urlParam_key (urlParam f) = ''variantOption'' \<Longrightarrow>
   link_search (getAppliedFilterLink f params loc) =
     filter (\<lambda>e. fst e \<noteq> ''variantOption'') params @
     filter (\<lambda>e. fst e = ''variantOption'' \<and> \<not> sublist (urlParam_value (urlParam f)) (snd e)) params"
  by (simp add: getAppliedFilterLink_def Let_def foldl_usp_append map_key_getAll_filter
      usp_delete_def str_includes_sublist)

lemma link_search_other:
  "urlParam_key (urlParam f) \<noteq> ''variantOption'' \<Longrightarrow>
   link_search (getAppliedFilterLink f params loc) =
     filter (\<lambda>e. fst e \<noteq> urlParam_key (urlParam f)) params"
  by (simp add: getAppliedFilterLink_def Let_def usp_delete_def)

text \<open>
  C9. In the link \<^verbatim>\<open>getAppliedFilterLink\<close> returns for an applied filter, the path is
  the location's, and the query entries whose name is not the filter's \<^verbatim>\<open>urlParam.key\<close>
  are those of the given parameters, unchanged and in the same order. Of the entries
  under the filter's own name none is left, except for the name \<^verbatim>\<open>variantOption\<close>:
  there the entries whose value does not contain the filter's value as a substring are
  kept, in their order. The kept entries of the filter's name stand after all the others
  (they are appended again).
\<close>

theorem getAppliedFilterLink_frame:
  "link_pathname (getAppliedFilterLink f params loc) = pathname loc \<and>
   filter (\<lambda>e. fst e \<noteq> urlParam_key (urlParam f)) (link_search (getAppliedFilterLink f params loc)) =
     filter (\<lambda>e. fst e \<noteq> urlParam_key (urlParam f)) params \<and>
   filter (\<lambda>e. fst e = urlParam_key (urlParam f)) (link_search (getAppliedFilterLink f params loc)) =
     (if urlParam_key (urlParam f) = ''variantOption''
      then filter (\<lambda>e. fst e = ''variantOption'' \<and> \<not> sublist (urlParam_value (urlParam f)) (snd e)) params
      else []) \<and>
   link_search (getAppliedFilterLink f params loc) =
     filter (\<lambda>e. fst e \<noteq> urlParam_key (urlParam f)) (link_search (getAppliedFilterLink f params loc)) @
     filter (\<lambda>e. fst e = urlParam_key (urlParam f)) (link_search (getAppliedFilterLink f params loc))"
proof (cases "urlParam_key (urlParam f) = ''variantOption''")
  case True
  show ?thesis
    unfolding link_search_variantOption [OF True] True
    by (auto simp: getAppliedFilterLink_def Let_def filter_empty_conv intro: filter_cong)
next
  case False
  show ?thesis
    unfolding link_search_other [OF False]
    using False by (auto simp: getAppliedFilterLink_def Let_def filter_empty_conv)
qed

subsection \<open>Encoding a filter input into the search parameters\<close>

lemma listEntry_object:
  "is_JsObject (snd e) \<Longrightarrow>
   listEntryToParams ps e =
     (if variantOf (snd e) \<in> set (usp_getAll ''variantOption'' ps) then ps
      else ps @ [(''variantOption'', variantOf (snd e))])"
  by (cases "snd e")
    (simp_all add: is_JsObject_def listEntryToParams_def variantOf_def Let_def usp_append_def)

lemma usp_getAll_append: "usp_getAll k (ps @ qs) = usp_getAll k ps @ usp_getAll k qs"
  by (simp add: usp_getAll_def)

lemma listEntry_object_present:
  "is_JsObject (snd e) \<Longrightarrow>
   variantOf (snd e) \<in> set (usp_getAll ''variantOption'' (listEntryToParams ps e))"
  by (simp add: listEntry_object usp_getAll_append) (simp add: usp_getAll_def)

lemma listEntry_object_mono:
  "is_JsObject (snd e) \<Longrightarrow> v \<in> set (usp_getAll ''variantOption'' ps) \<Longrightarrow>
   v \<in> set (usp_getAll ''variantOption'' (listEntryToParams ps e))"
  by (simp add: listEntry_object usp_getAll_append)

lemma foldl_objects_mono:
  "list_all (\<lambda>e. is_JsObject (snd e)) es \<Longrightarrow> v \<in> set (usp_getAll ''variantOption'' ps) \<Longrightarrow>
   v \<in> set (usp_getAll ''variantOption'' (foldl listEntryToParams ps es))"
  by (induction es arbitrary: ps) (simp_all add: listEntry_object_mono)

text \<open>After the pass over the entries, the variant of every entry is among the parameters.\<close>

lemma foldl_objects_present:
  "list_all (\<lambda>e. is_JsObject (snd e)) es \<Longrightarrow> e \<in> set es \<Longrightarrow>
   variantOf (snd e) \<in> set (usp_getAll ''variantOption'' (foldl listEntryToParams ps es))"
proof (induction es arbitrary: ps)
  case Nil
  then show ?case by simp
next
  case (Cons a es)
  show ?case
  proof (cases "e = a")
    case True
    with Cons.prems show ?thesis
      by (simp add: foldl_objects_mono listEntry_object_present)
  next
    case False
    with Cons show ?thesis by simp
  qed
qed

text \<open>A pass over entries whose variants are all present changes nothing.\<close>

lemma foldl_objects_fixed:
  "list_all (\<lambda>e. is_JsObject (snd e)) es \<Longrightarrow>
   \<forall>e \<in> set es. variantOf (snd e) \<in> set (usp_getAll ''variantOption'' ps) \<Longrightarrow>
   foldl listEntryToParams ps es = ps"
  by (induction es) (simp_all add: listEntry_object)

lemma usp_set_idem: "usp_set k v (usp_set k v ps) = usp_set k v ps"
  by (induction ps) (simp_all add: usp_delete_def)

lemma usp_getAll_set_same: "usp_getAll k (usp_set k v ps) = [v]"
  by (induction ps) (auto simp: usp_getAll_def usp_delete_def filter_empty_conv)

lemma usp_getAll_delete_other: "k \<noteq> k' \<Longrightarrow> usp_getAll k (usp_delete k' ps) = usp_getAll k ps"
  by (induction ps) (auto simp: usp_getAll_def usp_delete_def)

lemma usp_getAll_set_other: "k \<noteq> k' \<Longrightarrow> usp_getAll k (usp_set k' v ps) = usp_getAll k ps"
proof (induction ps)
  case Nil
  then show ?case by (simp add: usp_getAll_def)
next
  case (Cons e ps)
  then show ?case
    using usp_getAll_delete_other [of k k' ps] by (auto simp: usp_getAll_def)
qed

lemma usp_delete_absent: "usp_getAll k ps = [] \<Longrightarrow> usp_delete k ps = ps"
  by (induction ps) (auto simp: usp_getAll_def usp_delete_def split: if_splits)

text \<open>Setting a name to the only value it already has changes nothing.\<close>

lemma usp_set_settled: "usp_getAll k ps = [v] \<Longrightarrow> usp_set k v ps = ps"
proof (induction ps)
  case Nil
  then show ?case by (simp add: usp_getAll_def)
next
  case (Cons e ps)
  show ?case
  proof (cases "fst e = k")
    case True
    with Cons.prems have "snd e = v" and "usp_getAll k ps = []"
      by (simp_all add: usp_getAll_def)
    with True show ?thesis
      by (cases e) (simp add: usp_delete_absent)
  next
    case False
    with Cons show ?thesis by (simp add: usp_getAll_def)
  qed
qed

lemma filterInputToParams_objects_idem:
  assumes "list_all (\<lambda>e. is_JsObject (snd e)) input"
  shows "filterInputToParams LIST input (foldl listEntryToParams params input) =
           Inr (foldl listEntryToParams params input)"
proof -
  have "foldl listEntryToParams (foldl listEntryToParams params input) input =
          foldl listEntryToParams params input"
    using assms by (intro foldl_objects_fixed) (simp_all add: foldl_objects_present)
  then show ?thesis by (simp add: filterInputToParams_def)
qed

lemma filterInputToParams_price_idem:
  "filterInputToParams PRICE_RANGE input params = Inr p1 \<Longrightarrow>
   filterInputToParams PRICE_RANGE input p1 = Inr p1"
  by (auto simp: filterInputToParams_def Let_def usp_set_idem usp_set_settled
      usp_getAll_set_same usp_getAll_set_other split: option.splits if_splits)

text \<open>
  C10. \<^verbatim>\<open>filterInputToParams\<close> is idempotent on \<^verbatim>\<open>LIST\<close> inputs whose values are
  variant option objects: it returns parameters, and applied again with the same input to
  the parameters it returned, it returns them unchanged. The reason is the first of the
  facts that follow: the entry \<^verbatim>\<open>name:value\<close> of a variant option is appended under
  \<^verbatim>\<open>variantOption\<close> only when it is not among the values of that name. A string or a
  boolean of a \<^verbatim>\<open>LIST\<close> input overwrites its key (\<^verbatim>\<open>set\<close>), and so does a
  \<^verbatim>\<open>PRICE_RANGE\<close> input; applying either twice gives what applying it once gives.
\<close>

theorem filterInputToParams_idempotent:
  "(list_all (\<lambda>e. is_JsObject (snd e)) input \<longrightarrow>
      (\<exists>p1. filterInputToParams LIST input params = Inr p1 \<and>
            filterInputToParams LIST input p1 = Inr p1)) \<and>
   (is_JsObject v \<longrightarrow>
      filterInputToParams LIST [(key, v)] params =
        Inr (if variantOf v \<in> set (usp_getAll ''variantOption'' params) then params
             else params @ [(''variantOption'', variantOf v)])) \<and>
   (filterInputToParams LIST [(key, JsString s)] params = Inr (usp_set key s params) \<and>
    filterInputToParams LIST [(key, JsString s)] (usp_set key s params) =
      Inr (usp_set key s params)) \<and>
   (filterInputToParams LIST [(key, JsBoolean b)] params =
      Inr (usp_set key (if b then ''true'' else ''false'') params) \<and>
    filterInputToParams LIST [(key, JsBoolean b)]
        (usp_set key (if b then ''true'' else ''false'') params) =
      Inr (usp_set key (if b then ''true'' else ''false'') params)) \<and>
   (\<forall>p1. filterInputToParams PRICE_RANGE input params = Inr p1 \<longrightarrow>
      filterInputToParams PRICE_RANGE input p1 = Inr p1)"
proof (intro conjI impI allI)
  assume "list_all (\<lambda>e. is_JsObject (snd e)) input"
  then have "filterInputToParams LIST input (foldl listEntryToParams params input) =
               Inr (foldl listEntryToParams params input)"
    by (rule filterInputToParams_objects_idem)
  moreover have "filterInputToParams LIST input params = Inr (foldl listEntryToParams params input)"
    by (simp add: filterInputToParams_def)
  ultimately show "\<exists>p1. filterInputToParams LIST input params = Inr p1 \<and>
                        filterInputToParams LIST input p1 = Inr p1"
    by blast
next
  assume "is_JsObject v"
  then show "filterInputToParams LIST [(key, v)] params =
        Inr (if variantOf v \<in> set (usp_getAll ''variantOption'' params) then params
             else params @ [(''variantOption'', variantOf v)])"
    using listEntry_object [of "(key, v)" params] by (simp add: filterInputToParams_def)
next
  show "filterInputToParams LIST [(key, JsString s)] params = Inr (usp_set key s params)"
    by (simp add: filterInputToParams_def listEntryToParams_def)
next
  show "filterInputToParams LIST [(key, JsString s)] (usp_set key s params) =
          Inr (usp_set key s params)"
    by (simp add: filterInputToParams_def listEntryToParams_def usp_set_idem)
next
  show "filterInputToParams LIST [(key, JsBoolean b)] params =
          Inr (usp_set key (if b then ''true'' else ''false'') params)"
    by (simp add: filterInputToParams_def listEntryToParams_def js_toString_def)
next
  show "filterInputToParams LIST [(key, JsBoolean b)]
          (usp_set key (if b then ''true'' else ''false'') params) =
        Inr (usp_set key (if b then ''true'' else ''false'') params)"
    by (simp add: filterInputToParams_def listEntryToParams_def js_toString_def usp_set_idem)
next
  fix p1
  assume "filterInputToParams PRICE_RANGE input params = Inr p1"
  then show "filterInputToParams PRICE_RANGE input p1 = Inr p1"
    by (rule filterInputToParams_price_idem)
qed

theorem filterInputToParams_idempotent_witness:
  "list_all (\<lambda>e. is_JsObject (snd e))
     [(''variantOption'', JsObject [(''name'', JsString ''Color''), (''value'', JsString ''Red'')])] \<and>
   filterInputToParams LIST
     [(''variantOption'', JsObject [(''name'', JsString ''Color''), (''value'', JsString ''Red'')])]
     [(''sort'', ''newest'')] =
     Inr [(''sort'', ''newest''), (''variantOption'', ''Color:Red'')] \<and>
   filterInputToParams LIST
     [(''variantOption'', JsObject [(''name'', JsString ''Color''), (''value'', JsString ''Red'')])]
     [(''sort'', ''newest''), (''variantOption'', ''Color:Red'')] =
     Inr [(''sort'', ''newest''), (''variantOption'', ''Color:Red'')] \<and>
   filterInputToParams PRICE_RANGE
     [(''price'', JsObject [(''min'', JsString ''10''), (''max'', JsString ''90'')])]
     [(''maxPrice'', ''50'')] =
     Inr [(''maxPrice'', ''90''), (''minPrice'', ''10'')] \<and>
   filterInputToParams PRICE_RANGE
     [(''price'', JsObject [(''min'', JsString ''10''), (''max'', JsString ''90'')])]
     [(''maxPrice'', ''90''), (''minPrice'', ''10'')] =
     Inr [(''maxPrice'', ''90''), (''minPrice'', ''10'')]"
proof -
  let ?input =
    "[(''variantOption'', JsObject [(''name'', JsString ''Color''), (''value'', JsString ''Red'')])]"
  let ?price = "[(''price'', JsObject [(''min'', JsString ''10''), (''max'', JsString ''90'')])]"
  have objects: "list_all (\<lambda>e. is_JsObject (snd e)) ?input"
    by (simp add: is_JsObject_def)
  have first: "filterInputToParams LIST ?input [(''sort'', ''newest'')] =
      Inr [(''sort'', ''newest''), (''variantOption'', ''Color:Red'')]"
    by (simp add: filterInputToParams_def listEntryToParams_def Let_def js_prop_def
        js_toString_def usp_getAll_def usp_append_def)
  have price: "filterInputToParams PRICE_RANGE ?price [(''maxPrice'', ''50'')] =
      Inr [(''maxPrice'', ''90''), (''minPrice'', ''10'')]"
    by (simp add: filterInputToParams_def Let_def js_prop_def js_truthy_def js_toString_def
        usp_delete_def)
  note t = filterInputToParams_idempotent [where input = ?input and params = "[(''sort'', ''newest'')]"]
  from t objects first
  have again: "filterInputToParams LIST ?input
      [(''sort'', ''newest''), (''variantOption'', ''Color:Red'')] =
      Inr [(''sort'', ''newest''), (''variantOption'', ''Color:Red'')]"
    by auto
  note u = filterInputToParams_idempotent [where input = ?price and params = "[(''maxPrice'', ''50'')]"]
  from u price
  have price_again: "filterInputToParams PRICE_RANGE ?price
      [(''maxPrice'', ''90''), (''minPrice'', ''10'')] =
      Inr [(''maxPrice'', ''90''), (''minPrice'', ''10'')]"
    by blast
  from objects first again price price_again show ?thesis by blast
qed

section \<open>Properties of the account actions\<close>

subsection \<open>Login\<close>

lemma form_String_empty: "form_String v = [] \<longleftrightarrow> v = Some (FormString [])"
  by (auto simp: form_String_def split: option.splits FormDataEntryValue.splits)

text \<open>A field of the login form reads as empty when it is missing or the empty string.\<close>

lemma login_field_empty:
  "login_field form name = [] \<longleftrightarrow>
   form_get form name = None \<or> form_get form name = Some (FormString [])"
  by (auto simp: login_field_def form_String_empty form_has_def form_get_def)

text \<open>The action, with the two fields named and the session written out.\<close>

lemma login_action_unfold:
  "login_action commit mutate request session =
     (if request_method request \<noteq> ''POST'' then
        \<lparr>response = json (ErrorData ''Method not allowed'') 405 [], session_after = session,
         mutations = []\<rparr>
      else if login_field (request_formData request) ''email'' = [] \<or>
              login_field (request_formData request) ''password'' = [] then
        \<lparr>response = catch_400 (Error ''Please provide both an email and a password.''),
         session_after = session, mutations = []\<rparr>
      else
        (let input = \<lparr>login_email = login_field (request_formData request) ''email'',
                      login_password = login_field (request_formData request) ''password''\<rparr>
         in case mutate input of
              None \<Rightarrow> \<lparr>response = catch_400 (Error []), session_after = session, mutations = [input]\<rparr>
            | Some payload \<Rightarrow>
                (case customerAccessToken payload of
                   None \<Rightarrow>
                     \<lparr>response = catch_400 (throw_first_error (customerUserErrors payload)),
                      session_after = session, mutations = [input]\<rparr>
                 | Some token \<Rightarrow>
                     if accessToken token = [] then
                       \<lparr>response = catch_400 (throw_first_error (customerUserErrors payload)),
                        session_after = session, mutations = [input]\<rparr>
                     else
                       \<lparr>response = redirect ''/account'' 302
                          [(''Set-Cookie'', commit (session_set session ''customerAccessToken'' token))],
                        session_after = session_set session ''customerAccessToken'' token,
                        mutations = [input]\<rparr>)))"
  unfolding login_action_def login_field_def Let_def by (simp cong: if_cong)

text \<open>
  C2. A POST to the login route whose form has no \<^verbatim>\<open>email\<close> or no \<^verbatim>\<open>password\<close>
  field, or has the empty string in either, is answered with status 400 and the JSON body
  \<^verbatim>\<open>{error: 'Please provide both an email and a password.'}\<close>; the action sends no
  mutation, leaves the session as it was, and its response has no \<^verbatim>\<open>Set-Cookie\<close>
  header.
\<close>

theorem login_action_missing_input:
  assumes "request_method request = ''POST''"
    and "form_get (request_formData request) ''email'' \<in> {None, Some (FormString [])} \<or>
         form_get (request_formData request) ''password'' \<in> {None, Some (FormString [])}"
  shows "response (login_action commit mutate request session) =
           json (ErrorData ''Please provide both an email and a password.'') 400 [] \<and>
         status (response (login_action commit mutate request session)) = 400 \<and>
         body (response (login_action commit mutate request session)) =
           JsonBody (ErrorData ''Please provide both an email and a password.'') \<and>
         ''Set-Cookie'' \<notin> fst ` set (headers (response (login_action commit mutate request session))) \<and>
         mutations (login_action commit mutate request session) = [] \<and>
         session_after (login_action commit mutate request session) = session"
proof -
  from assms(2)
  have "login_field (request_formData request) ''email'' = [] \<or>
        login_field (request_formData request) ''password'' = []"
    unfolding login_field_empty by auto
  with assms(1)
  have r: "login_action commit mutate request session =
      \<lparr>response = catch_400 (Error ''Please provide both an email and a password.''),
       session_after = session, mutations = []\<rparr>"
    unfolding login_action_unfold by auto
  show ?thesis
    unfolding r by (simp add: catch_400_def json_def error_message_def)
qed

theorem login_action_missing_input_witness:
  "request_method \<lparr>request_method = ''POST'',
      request_formData = [(''email'', FormString ''a@b.c''), (''password'', FormString [])],
      request_pathname = ''/account/login'', request_searchParams = []\<rparr> = ''POST'' \<and>
   form_get [(''email'', FormString ''a@b.c''), (''password'', FormString [])] ''password''
     = Some (FormString []) \<and>
   response (login_action (\<lambda>s. ''cookie'') (\<lambda>i. None)
      \<lparr>request_method = ''POST'',
       request_formData = [(''email'', FormString ''a@b.c''), (''password'', FormString [])],
       request_pathname = ''/account/login'', request_searchParams = []\<rparr> Map.empty) =
     \<lparr>status = 400, headers = [(''Content-Type'', ''application/json; charset=utf-8'')],
      body = JsonBody (ErrorData ''Please provide both an email and a password.'')\<rparr> \<and>
   mutations (login_action (\<lambda>s. ''cookie'') (\<lambda>i. None)
      \<lparr>request_method = ''POST'',
       request_formData = [(''email'', FormString ''a@b.c''), (''password'', FormString [])],
       request_pathname = ''/account/login'', request_searchParams = []\<rparr> Map.empty) = []"
proof -
  let ?req = "\<lparr>request_method = ''POST'',
      request_formData = [(''email'', FormString ''a@b.c''), (''password'', FormString [])],
      request_pathname = ''/account/login'', request_searchParams = []\<rparr>"
  have m: "request_method ?req = ''POST''" by simp
  have f: "form_get (request_formData ?req) ''email'' \<in> {None, Some (FormString [])} \<or>
         form_get (request_formData ?req) ''password'' \<in> {None, Some (FormString [])}"
    by (simp add: form_get_def)
  show ?thesis
    using login_action_missing_input [OF m f, of "\<lambda>s. ''cookie''" "\<lambda>i. None" Map.empty]
    by (simp add: form_get_def json_def)
qed




subsection \<open>Password reset\<close>

text \<open>
  With both route parameters present, a POST whose form lacks the password or its
  confirmation is not rejected: \<^verbatim>\<open>validInputs\<close> is false, the comparison of the two
  fields is skipped, and the mutation is sent with the password as read.
\<close>

lemma reset_action_missing_field_sends:
  assumes "request_method request = ''POST''" and "customerId \<noteq> []" and "resetToken \<noteq> []"
    and "\<not> form_has (request_formData request) ''password'' \<or>
         \<not> form_has (request_formData request) ''passwordConfirm''"
  shows "mutations (reset_action commit mutate request (Some customerId) (Some resetToken) session) =
           [\<lparr>reset_id = ''gid://shopify/Customer/'' @ customerId,
             reset_password =
               (if form_has (request_formData request) ''password''
                then form_String (form_get (request_formData request) ''password'') else []),
             reset_resetToken = resetToken\<rparr>]"
  using assms
  by (auto simp: reset_action_def reset_submit_def Let_def split: option.splits)

text \<open>
  C3 (what the action does at an input of the claim). The POST carries a password and no
  confirmation, the route parameters are \<^verbatim>\<open>1\<close> and \<^verbatim>\<open>rt\<close>, and the storefront answers
  the mutation with a token. The action sends the \<^verbatim>\<open>customerReset\<close> mutation with that
  password, stores the token in the session and redirects to \<^verbatim>\<open>/account\<close> with status
  302: the request is not answered with status 400, and the mutation is sent.
\<close>

theorem reset_action_sends_without_confirmation:
  "reset_action (\<lambda>s. ''cookie'')
      (\<lambda>v. Some \<lparr>customerUserErrors = [],
                  customerAccessToken = Some \<lparr>accessToken = ''tok'', expiresAt = ''2030-01-01''\<rparr>\<rparr>)
      \<lparr>request_method = ''POST'',
       request_formData = [(''password'', FormString ''secret123'')],
       request_pathname = ''/account/reset/1/rt'', request_searchParams = []\<rparr>
      (Some ''1'') (Some ''rt'') Map.empty =
   \<lparr>response = \<lparr>status = 302, headers = [(''Set-Cookie'', ''cookie''), (''Location'', ''/account'')],
                 body = NullBody\<rparr>,
    session_after = [''customerAccessToken'' \<mapsto> \<lparr>accessToken = ''tok'', expiresAt = ''2030-01-01''\<rparr>],
    mutations = [\<lparr>reset_id = ''gid://shopify/Customer/1'', reset_password = ''secret123'',
                  reset_resetToken = ''rt''\<rparr>]\<rparr>"
  by (simp add: reset_action_def reset_submit_def Let_def form_has_def form_get_def form_String_def
      redirect_def session_set_def)

subsection \<open>Addresses and profile\<close>

text \<open>
  C4. Without a \<^verbatim>\<open>customerAccessToken\<close> in the session, the addresses action given a
  form with a non-empty \<^verbatim>\<open>addressId\<close>, and the profile action given a PUT request whose
  body is form data, answer with status 401 and the error \<^verbatim>\<open>Unauthorized\<close> (under the
  address id, for the addresses action), and send no mutation.
\<close>

theorem account_actions_unauthorized:
  "(form_get (request_formData request_a) ''addressId'' = Some v \<and> form_String (Some v) \<noteq> [] \<and>
    session_get session_a ''customerAccessToken'' = None \<longrightarrow>
      response (addresses_action decodeURIComponent mutate_a request_a session_a) =
        json (AddressError (form_String (Some v)) ''Unauthorized'') 401 [] \<and>
      status (response (addresses_action decodeURIComponent mutate_a request_a session_a)) = 401 \<and>
      mutations (addresses_action decodeURIComponent mutate_a request_a session_a) = []) \<and>
   (profile_method request_p = ''PUT'' \<and> profile_formData request_p = Inr form \<and>
    session_get session_p ''customerAccessToken'' = None \<longrightarrow>
      (\<exists>r. profile_action commit mutate_p request_p session_p = Inr r \<and>
           response r = json (ProfileError ''Unauthorized'') 401 [] \<and>
           status (response r) = 401 \<and> mutations r = [] \<and> session_after r = session_p))"
  by (auto simp: addresses_action_def profile_action_def Let_def form_has_def form_get_def json_def)

theorem account_actions_unauthorized_witness:
  "status (response (addresses_action (\<lambda>s. Inr s) (\<lambda>m. None)
      \<lparr>request_method = ''DELETE'',
       request_formData = [(''addressId'', FormString ''gid://shopify/MailingAddress/7'')],
       request_pathname = ''/account/addresses'', request_searchParams = []\<rparr> Map.empty)) = 401 \<and>
   body (response (addresses_action (\<lambda>s. Inr s) (\<lambda>m. None)
      \<lparr>request_method = ''DELETE'',
       request_formData = [(''addressId'', FormString ''gid://shopify/MailingAddress/7'')],
       request_pathname = ''/account/addresses'', request_searchParams = []\<rparr> Map.empty)) =
     JsonBody (AddressError ''gid://shopify/MailingAddress/7'' ''Unauthorized'') \<and>
   mutations (addresses_action (\<lambda>s. Inr s) (\<lambda>m. None)
      \<lparr>request_method = ''DELETE'',
       request_formData = [(''addressId'', FormString ''gid://shopify/MailingAddress/7'')],
       request_pathname = ''/account/addresses'', request_searchParams = []\<rparr> Map.empty) = [] \<and>
   profile_action (\<lambda>s. ''cookie'') (\<lambda>m. None :: unit CustomerUpdatePayload option)
      \<lparr>profile_method = ''PUT'',
       profile_formData = Inr [(''firstName'', FormString ''Ada'')]\<rparr> Map.empty =
     Inr \<lparr>response =
            \<lparr>status = 401, headers = [(''Content-Type'', ''application/json; charset=utf-8'')],
             body = JsonBody (ProfileError ''Unauthorized'')\<rparr>,
          session_after = Map.empty, mutations = []\<rparr>"
proof -
  let ?req_a = "\<lparr>request_method = ''DELETE'',
       request_formData = [(''addressId'', FormString ''gid://shopify/MailingAddress/7'')],
       request_pathname = ''/account/addresses'', request_searchParams = []\<rparr>"
  let ?req_p = "\<lparr>profile_method = ''PUT'',
       profile_formData = Inr [(''firstName'', FormString ''Ada'')]\<rparr>"
  have a: "form_get (request_formData ?req_a) ''addressId'' =
             Some (FormString ''gid://shopify/MailingAddress/7'') \<and>
           form_String (Some (FormString ''gid://shopify/MailingAddress/7'')) \<noteq> [] \<and>
           session_get Map.empty ''customerAccessToken'' = None"
    by (simp add: form_get_def form_String_def session_get_def)
  have p: "profile_method ?req_p = ''PUT'' \<and>
           profile_formData ?req_p = Inr [(''firstName'', FormString ''Ada'')] \<and>
           session_get Map.empty ''customerAccessToken'' = None"
    by (simp add: session_get_def)
  note t = account_actions_unauthorized
    [where request_a = ?req_a and v = "FormString ''gid://shopify/MailingAddress/7''"
       and session_a = Map.empty and decodeURIComponent = "\<lambda>s. Inr s" and mutate_a = "\<lambda>m. None"
       and request_p = ?req_p and form = "[(''firstName'', FormString ''Ada'')]"
       and session_p = Map.empty and commit = "\<lambda>s. ''cookie''"
       and mutate_p = "\<lambda>m. None :: unit CustomerUpdatePayload option"]
  from t a
  have addresses: "status (response (addresses_action (\<lambda>s. Inr s) (\<lambda>m. None) ?req_a Map.empty)) = 401 \<and>
      body (response (addresses_action (\<lambda>s. Inr s) (\<lambda>m. None) ?req_a Map.empty)) =
        JsonBody (AddressError ''gid://shopify/MailingAddress/7'' ''Unauthorized'') \<and>
      mutations (addresses_action (\<lambda>s. Inr s) (\<lambda>m. None) ?req_a Map.empty) = []"
    by (simp add: json_def form_String_def)
  from t p obtain r where r:
    "profile_action (\<lambda>s. ''cookie'') (\<lambda>m. None :: unit CustomerUpdatePayload option)
       ?req_p Map.empty = Inr r"
    "response r = json (ProfileError ''Unauthorized'') 401 []"
    "mutations r = []" "session_after r = Map.empty"
    by blast
  from r(2-4) have "r = \<lparr>response =
            \<lparr>status = 401, headers = [(''Content-Type'', ''application/json; charset=utf-8'')],
             body = JsonBody (ProfileError ''Unauthorized'')\<rparr>,
          session_after = Map.empty, mutations = []\<rparr>"
    by (cases r) (simp add: json_def)
  with r(1) addresses show ?thesis by simp
qed

text \<open>
  C4 as it was stated, for every PUT request, does not hold of the profile action: a PUT
  request without a token in the session whose body is not form data (here a JSON body,
  for which \<^verbatim>\<open>request.formData()\<close> rejects with a \<^verbatim>\<open>TypeError\<close>) is not answered with
  status 401. The action throws that error before it reads the session.
\<close>

theorem profile_action_body_not_form_data:
  "profile_method \<lparr>profile_method = ''PUT'',
      profile_formData = Inl (TypeError ''Could not parse content as FormData.'')\<rparr> = ''PUT'' \<and>
   session_get Map.empty ''customerAccessToken'' = None \<and>
   profile_action (\<lambda>s. ''cookie'') (\<lambda>m. None :: unit CustomerUpdatePayload option)
      \<lparr>profile_method = ''PUT'',
       profile_formData = Inl (TypeError ''Could not parse content as FormData.'')\<rparr> Map.empty =
     Inl (TypeError ''Could not parse content as FormData.'')"
  by (simp add: profile_action_def session_get_def)

section \<open>Properties of the loaders\<close>








section \<open>Properties of the validation of the customer access token\<close>

text \<open>
  C8. \<^verbatim>\<open>validateCustomerAccessToken\<close> reports \<^verbatim>\<open>isLoggedIn\<close> exactly when the token it
  is given (the \<^verbatim>\<open>customerAccessToken\<close> of the session) has a non-empty \<^verbatim>\<open>accessToken\<close>
  and a non-empty \<^verbatim>\<open>expiresAt\<close> that is not earlier than the current time, by the
  comparison of the source; for an \<^verbatim>\<open>expiresAt\<close> that is a date, that is when the current
  time is at most its time. When such a token is expired, the function removes
  \<^verbatim>\<open>customerAccessToken\<close> from the session, returns as its only header the
  \<^verbatim>\<open>Set-Cookie\<close> of the commit of the session without the token, and reports
  \<^verbatim>\<open>isLoggedIn\<close> false.
\<close>

theorem validateCustomerAccessToken_spec:
  "(isLoggedIn (validateCustomerAccessToken commit getTime dateNow session tok) \<longleftrightarrow>
      (\<exists>t. tok = Some t \<and> accessToken t \<noteq> [] \<and> expiresAt t \<noteq> [] \<and>
           \<not> js_less (getTime (expiresAt t)) dateNow)) \<and>
   (\<forall>t ms. tok = Some t \<and> accessToken t \<noteq> [] \<and> expiresAt t \<noteq> [] \<and>
           getTime (expiresAt t) = Some ms \<longrightarrow>
      (isLoggedIn (validateCustomerAccessToken commit getTime dateNow session tok) \<longleftrightarrow>
         dateNow \<le> ms)) \<and>
   (\<forall>t. tok = Some t \<and> accessToken t \<noteq> [] \<and> expiresAt t \<noteq> [] \<and>
        js_less (getTime (expiresAt t)) dateNow \<longrightarrow>
      \<not> isLoggedIn (validateCustomerAccessToken commit getTime dateNow session tok) \<and>
      validation_session (validateCustomerAccessToken commit getTime dateNow session tok) =
        session_unset session ''customerAccessToken'' \<and>
      session_get (validation_session (validateCustomerAccessToken commit getTime dateNow session tok))
        ''customerAccessToken'' = None \<and>
      validation_headers (validateCustomerAccessToken commit getTime dateNow session tok) =
        [(''Set-Cookie'',
          commit (validation_session (validateCustomerAccessToken commit getTime dateNow session tok)))])"
  by (auto simp: validateCustomerAccessToken_def Let_def js_less_def session_unset_def session_get_def
      split: option.splits)

theorem validateCustomerAccessToken_spec_witness:
  "\<not> isLoggedIn (validateCustomerAccessToken (\<lambda>s. ''cookie'') (\<lambda>s. Some 1000) 2000
        [''customerAccessToken'' \<mapsto> \<lparr>accessToken = ''tok'', expiresAt = ''1970-01-01T00:00:01Z''\<rparr>]
        (Some \<lparr>accessToken = ''tok'', expiresAt = ''1970-01-01T00:00:01Z''\<rparr>)) \<and>
   validation_headers (validateCustomerAccessToken (\<lambda>s. ''cookie'') (\<lambda>s. Some 1000) 2000
        [''customerAccessToken'' \<mapsto> \<lparr>accessToken = ''tok'', expiresAt = ''1970-01-01T00:00:01Z''\<rparr>]
        (Some \<lparr>accessToken = ''tok'', expiresAt = ''1970-01-01T00:00:01Z''\<rparr>)) =
     [(''Set-Cookie'', ''cookie'')] \<and>
   validation_session (validateCustomerAccessToken (\<lambda>s. ''cookie'') (\<lambda>s. Some 1000) 2000
        [''customerAccessToken'' \<mapsto> \<lparr>accessToken = ''tok'', expiresAt = ''1970-01-01T00:00:01Z''\<rparr>]
        (Some \<lparr>accessToken = ''tok'', expiresAt = ''1970-01-01T00:00:01Z''\<rparr>))
     ''customerAccessToken'' = None \<and>
   isLoggedIn (validateCustomerAccessToken (\<lambda>s. ''cookie'') (\<lambda>s. Some 1000) 500
        [''customerAccessToken'' \<mapsto> \<lparr>accessToken = ''tok'', expiresAt = ''1970-01-01T00:00:01Z''\<rparr>]
        (Some \<lparr>accessToken = ''tok'', expiresAt = ''1970-01-01T00:00:01Z''\<rparr>))"
proof -
  let ?tok = "\<lparr>accessToken = ''tok'', expiresAt = ''1970-01-01T00:00:01Z''\<rparr>"
  let ?session = "[''customerAccessToken'' \<mapsto> ?tok]"
  note expired = validateCustomerAccessToken_spec
    [where commit = "\<lambda>s. ''cookie''" and getTime = "\<lambda>s. Some 1000" and dateNow = 2000
       and session = ?session and tok = "Some ?tok"]
  note valid = validateCustomerAccessToken_spec
    [where commit = "\<lambda>s. ''cookie''" and getTime = "\<lambda>s. Some 1000" and dateNow = 500
       and session = ?session and tok = "Some ?tok"]
  have e: "accessToken ?tok \<noteq> [] \<and> expiresAt ?tok \<noteq> [] \<and> js_less (Some 1000) 2000"
    by (simp add: js_less_def)
  have v: "accessToken ?tok \<noteq> [] \<and> expiresAt ?tok \<noteq> [] \<and> \<not> js_less (Some 1000) 500"
    by (simp add: js_less_def)
  from expired e
  have "\<not> isLoggedIn (validateCustomerAccessToken (\<lambda>s. ''cookie'') (\<lambda>s. Some 1000) 2000
          ?session (Some ?tok)) \<and>
        validation_headers (validateCustomerAccessToken (\<lambda>s. ''cookie'') (\<lambda>s. Some 1000) 2000
          ?session (Some ?tok)) = [(''Set-Cookie'', ''cookie'')] \<and>
        validation_session (validateCustomerAccessToken (\<lambda>s. ''cookie'') (\<lambda>s. Some 1000) 2000
          ?session (Some ?tok)) ''customerAccessToken'' = None"
    by (simp add: session_get_def session_unset_def)
  moreover from valid v
  have "isLoggedIn (validateCustomerAccessToken (\<lambda>s. ''cookie'') (\<lambda>s. Some 1000) 500
          ?session (Some ?tok))"
    by simp
  ultimately show ?thesis by blast
qed

section \<open>Properties of the deferred fetches\<close>




end
